theory Spec2Isabelle
  imports Complex_Main "HOL-Library.Char_ord" "HOL-Library.List_Lexorder"
begin

section \<open>Gmail-GEN: aggregation and dispatch of payment confirmations\<close>

text \<open>
  A shallow embedding of \<^verbatim>\<open>backend-terracanada/src/services/GmailGenService.ts\<close>
  (and of the second revision of the same service, \<^verbatim>\<open>unnamed/part_001\<close>).

  Conventions of the embedding.
  \<^item> A JavaScript string is a \<^typ>\<open>string\<close>; each character stands for one UTF-16 code
    unit below 256, so the accented o of the default subject is the single character \<open>0xF3\<close>.
  \<^item> An amount (\<^verbatim>\<open>Number(row.monto)\<close>) is an exact rational: the rounding of IEEE
    doubles and the value NaN are outside the model.
  \<^item> A thrown \<^verbatim>\<open>Error\<close> is \<open>Inl message\<close>; a promise that resolves is \<open>Inr value\<close>.
  \<^item> The field \<^verbatim>\<open>id\<close> of the TypeScript interfaces is written \<open>pago_id\<close>
    (payment record) and \<open>grupo_id\<close> (group), since \<open>id\<close> is the identity of HOL.
\<close>

subsection \<open>JSON values received from the webhook\<close>

datatype json =
    JNull
  | JBool bool
  | JNum int
  | JStr string
  | JArr "json list"
  | JObj "(string \<times> json) list"

text \<open>Property access \<^verbatim>\<open>v.k\<close>: \<open>None\<close> is \<^verbatim>\<open>undefined\<close> (a missing key, or a
  value that is not an object).\<close>

fun campo :: "json \<Rightarrow> string \<Rightarrow> json option" where
  "campo (JObj kvs) k = map_of kvs k"
| "campo _ k = None"

text \<open>JavaScript truthiness of a JSON value.\<close>

fun truthy :: "json \<Rightarrow> bool" where
  "truthy JNull = False"
| "truthy (JBool b) = b"
| "truthy (JNum n) = (n \<noteq> 0)"
| "truthy (JStr s) = (s \<noteq> [])"
| "truthy (JArr _) = True"
| "truthy (JObj _) = True"

text \<open>
  The gateway step of \<^verbatim>\<open>enviarCorreoProveedor\<close> (GmailGenService.ts, lines 236-254):
  \<^verbatim>\<open>
  let webhookResponseData: any = null;
  let estadoEnvio = 'ENVIADO';
  try {
    const webhookResponse = await axios.post(...);
    webhookResponseData = webhookResponse.data;
    if (webhookResponseData?.code && webhookResponseData.estado === false) {
      estadoEnvio = 'ERROR_WEBHOOK';
    }
  } catch (error: any) { estadoEnvio = 'ERROR_WEBHOOK'; }
  \<close>
  The argument is the outcome of \<^verbatim>\<open>axios.post\<close>: \<open>Inl msg\<close> when it rejects (no
  connection, the 15 s timeout, a status outside 2xx), \<open>Inr body\<close> when it resolves.
  The result is the pair \<open>(webhookResponseData, estadoEnvio)\<close> after the block.
\<close>

definition paso_webhook :: "string + json \<Rightarrow> json \<times> string" where
  "paso_webhook resultado =
     (case resultado of
        Inl err \<Rightarrow> (JNull, ''ERROR_WEBHOOK'')
      | Inr webhookResponseData \<Rightarrow>
          (if (case campo webhookResponseData ''code'' of None \<Rightarrow> False | Some c \<Rightarrow> truthy c)
              \<and> campo webhookResponseData ''estado'' = Some (JBool False)
           then (webhookResponseData, ''ERROR_WEBHOOK'')
           else (webhookResponseData, ''ENVIADO'')))"

subsection \<open>Strings\<close>

text \<open>The white space that \<^verbatim>\<open>String.prototype.trim\<close> removes, among the code units
  below 256: TAB, LF, VT, FF, CR, SPACE and NBSP.\<close>

definition es_espacio :: "char \<Rightarrow> bool" where
  "es_espacio c = (of_char c \<in> {9, 10, 11, 12, 13, 32, 160 :: nat})"

definition trim :: "string \<Rightarrow> string" where
  "trim s = rev (dropWhile es_espacio (rev (dropWhile es_espacio s)))"

text \<open>\<^verbatim>\<open>toUpperCase\<close> on the ASCII letters. The upper-case mappings of the other
  characters yield no ASCII letter and no hyphen, so they do not bear on the prefix test
  against \<^verbatim>\<open>'BANCO-'\<close>, the only use of the function; they are left unchanged here.\<close>

definition toUpperCase_char :: "char \<Rightarrow> char" where
  "toUpperCase_char c =
     (case map_of (zip ''abcdefghijklmnopqrstuvwxyz'' ''ABCDEFGHIJKLMNOPQRSTUVWXYZ'') c of
        None \<Rightarrow> c
      | Some u \<Rightarrow> u)"

definition toUpperCase :: "string \<Rightarrow> string" where
  "toUpperCase s = map toUpperCase_char s"

definition startsWith :: "string \<Rightarrow> string \<Rightarrow> bool" where
  "startsWith s pre = (take (length pre) s = pre)"

definition digito :: "nat \<Rightarrow> char" where
  "digito d = ''0123456789'' ! d"

text \<open>The decimal numeral of a natural number, as template interpolation prints it.\<close>

fun digitos :: "nat \<Rightarrow> string" where
  "digitos n = (if n < 10 then [digito n] else digitos (n div 10) @ [digito (n mod 10)])"

declare digitos.simps [simp del]

text \<open>
  \<^verbatim>\<open>Number.prototype.toFixed(2)\<close> on an exact value of magnitude below \<open>10^21\<close>
  (from there on JavaScript switches to exponent notation): the sign, then the integer
  \<open>n\<close> nearest to \<open>100 * |x|\<close> (the larger one on a tie), printed with two digits
  after the point.
\<close>

definition toFixed2 :: "rat \<Rightarrow> string" where
  "toFixed2 x =
     (let s = (if x < 0 then ''-'' else []);
          a = \<bar>x\<bar>;
          n = nat \<lfloor>a * 100 + 1 / 2\<rfloor>
      in s @ digitos (n div 100) @ ''.'' @ [digito (n mod 100 div 10), digito (n mod 10)])"

subsection \<open>The relational store\<close>

text \<open>The columns of \<^verbatim>\<open>pagos p\<close>, \<^verbatim>\<open>proveedores pr\<close> and
  \<^verbatim>\<open>detalle_envio_correo dec\<close> that the queries of the service read, each under the
  alias the SQL text gives its table. \<open>p_fecha_pago\<close> is \<^verbatim>\<open>DATE(p.fecha_pago)\<close> in the
  form \<^verbatim>\<open>YYYY-MM-DD\<close>; \<open>p_codigo\<close> is \<open>None\<close> for SQL \<^verbatim>\<open>NULL\<close>.\<close>

record pagos_fila =
  p_id_pago :: nat
  p_usuario_id :: nat
  p_proveedor_id :: nat
  p_cliente :: string
  p_monto :: rat
  p_codigo :: "string option"
  p_estado :: string
  p_esta_activo :: bool
  p_esta_verificado :: bool
  p_fecha_pago :: string

record proveedores_fila =
  pr_id :: nat
  pr_nombre :: string
  pr_correo :: string

record detalle_fila =
  dec_envio_id :: nat
  dec_pago_id :: nat

text \<open>One row per dispatch attempt (the Delivery of the specification).\<close>

record envio_fila =
  e_id_envio :: nat
  e_proveedor_id :: nat
  e_usuario_envio_id :: nat
  e_fecha_resumen :: string
  e_cantidad_pagos :: nat
  e_monto_total :: rat
  e_asunto_correo :: string
  e_cuerpo_correo :: string
  e_estado :: string

text \<open>\<open>caida = Some msg\<close>: the store cannot be reached and \<^verbatim>\<open>db.query\<close> rejects
  with \<^verbatim>\<open>Error(msg)\<close>.\<close>

record db_state =
  caida :: "string option"
  t_pagos :: "pagos_fila list"
  t_proveedores :: "proveedores_fila list"
  t_detalle_envio_correo :: "detalle_fila list"
  t_envios_correo :: "envio_fila list"

text \<open>A row of the result of \<^verbatim>\<open>obtenerPagosDirectos\<close> (\<^verbatim>\<open>row.id_pago\<close>, ...).\<close>

record fila =
  row_id_pago :: nat
  row_cliente :: string
  row_monto :: rat
  row_codigo :: "string option"
  row_id_proveedor :: nat
  row_nombre_proveedor :: string
  row_correo :: string

text \<open>
  \<^verbatim>\<open>obtenerPagosDirectos(usuarioId, fecha, proveedorId?)\<close>, lines 47-86:
  \<open>seleccion\<close> is the \<^verbatim>\<open>SELECT\<close> list and \<open>condicion\<close> the \<^verbatim>\<open>ON\<close> and
  \<^verbatim>\<open>WHERE\<close> clauses over the pairs of a payment and a provider. The result is the join of
  \<open>pagos\<close> with \<open>proveedores\<close>, restricted to the operator, to state \<^verbatim>\<open>'PAGADO'\<close>, to
  active payments with no row in \<open>detalle_envio_correo\<close>, to the date, and to the provider
  when \<^verbatim>\<open>if (proveedorId)\<close> holds (a provider id that is absent or \<open>0\<close> adds no
  filter). \<open>p_esta_verificado\<close> is not read. \<open>fecha\<close> is taken to be a well-formed date.

  Modelled from the spec: the collation of \<^verbatim>\<open>ORDER BY pr.nombre ASC\<close> belongs to the
  configuration of the database, which the sources do not hold; the specification gives
  it as case-sensitive byte order, here the lexicographic order on \<^typ>\<open>string\<close>.
  The sort is stable: rows of one provider keep the order of the table.
\<close>

definition seleccion :: "pagos_fila \<times> proveedores_fila \<Rightarrow> fila" where
  "seleccion ppr =
     (case ppr of (p, pr) \<Rightarrow>
        \<lparr>row_id_pago = p_id_pago p, row_cliente = p_cliente p, row_monto = p_monto p,
         row_codigo = p_codigo p, row_id_proveedor = pr_id pr,
         row_nombre_proveedor = pr_nombre pr, row_correo = pr_correo pr\<rparr>)"

definition condicion ::
  "db_state \<Rightarrow> nat \<Rightarrow> string \<Rightarrow> nat option \<Rightarrow> pagos_fila \<times> proveedores_fila \<Rightarrow> bool" where
  "condicion db usuarioId fecha proveedorId ppr =
     (case ppr of (p, pr) \<Rightarrow>
        p_proveedor_id p = pr_id pr
        \<and> p_usuario_id p = usuarioId
        \<and> p_estado p = ''PAGADO''
        \<and> p_esta_activo p
        \<and> p_id_pago p \<notin> set (map dec_pago_id (t_detalle_envio_correo db))
        \<and> p_fecha_pago p = fecha
        \<and> (case proveedorId of None \<Rightarrow> True | Some n \<Rightarrow> n = 0 \<or> pr_id pr = n))"

definition obtenerPagosDirectos ::
  "db_state \<Rightarrow> nat \<Rightarrow> string \<Rightarrow> nat option \<Rightarrow> string + fila list" where
  "obtenerPagosDirectos db usuarioId fecha proveedorId =
     (case caida db of
        Some err \<Rightarrow> Inl err
      | None \<Rightarrow>
          Inr (sort_key row_nombre_proveedor
                 (map seleccion
                    (filter (condicion db usuarioId fecha proveedorId)
                       (List.product (t_pagos db) (t_proveedores db))))))"

text \<open>\<^verbatim>\<open>fecha || fechaLocal\<close>: the date of the request, or today's date
  (\<^verbatim>\<open>today.toLocaleDateString('en-CA')\<close>, a parameter here) when the request gives none
  or the empty string.\<close>

definition fechaResumen_de :: "string option \<Rightarrow> string \<Rightarrow> string" where
  "fechaResumen_de fecha fechaLocal =
     (case fecha of None \<Rightarrow> fechaLocal | Some f \<Rightarrow> if f = [] then fechaLocal else f)"

subsection \<open>Groups and service responses\<close>

record GmailPaymentRecord =
  pago_id :: nat
  cliente :: string
  monto :: rat
  codigo :: "string option"

datatype GmailGroupEstado = pendiente | enviado

datatype color_grupo = teal | brown

record GmailEmailGroup =
  grupo_id :: nat
  proveedorNombre :: string
  correoContacto :: string
  color :: color_grupo
  estado :: GmailGroupEstado
  pagos :: "GmailPaymentRecord list"
  totalPagos :: int
  totalMonto :: rat

text \<open>\<^verbatim>\<open>ServiceResponse<T>\<close>: \<open>None\<close> is an absent field.\<close>

record 'a ServiceResponse =
  success :: bool
  data :: "'a option"
  error :: "string option"
  statusCode :: int

subsection \<open>The daily summary: \<^verbatim>\<open>getResumenPagosDia\<close>\<close>

text \<open>The value stored in \<^verbatim>\<open>mapGroups\<close> under a provider name (lines 111-116).\<close>

record detalles =
  d_id_proveedor :: nat
  d_correo :: string
  d_pagos :: "GmailPaymentRecord list"
  d_monto_total :: rat
  d_cantidad_pagos :: nat

text \<open>A JavaScript \<^verbatim>\<open>Map<string, any>\<close> is an association list in insertion order with
  distinct keys: \<^verbatim>\<open>has\<close>, \<^verbatim>\<open>set\<close> of a new key (appended at the end), and the
  in-place update of the object that \<^verbatim>\<open>get\<close> returns.\<close>

definition map_has :: "(string \<times> 'v) list \<Rightarrow> string \<Rightarrow> bool" where
  "map_has m key = (key \<in> set (map fst m))"

definition map_modificar :: "string \<Rightarrow> ('v \<Rightarrow> 'v) \<Rightarrow> (string \<times> 'v) list \<Rightarrow> (string \<times> 'v) list" where
  "map_modificar key f m = map (\<lambda>(k, v). if k = key then (k, f v) else (k, v)) m"

text \<open>The body of \<^verbatim>\<open>rows.forEach\<close>, lines 107-131.\<close>

definition paso_agrupar :: "(string \<times> detalles) list \<Rightarrow> fila \<Rightarrow> (string \<times> detalles) list" where
  "paso_agrupar mapGroups row =
     (let key = row_nombre_proveedor row;
          m1 = (if \<not> map_has mapGroups key
                then mapGroups @ [(key, \<lparr>d_id_proveedor = row_id_proveedor row,
                                         d_correo = row_correo row, d_pagos = [],
                                         d_monto_total = 0, d_cantidad_pagos = 0\<rparr>)]
                else mapGroups);
          monto = row_monto row
      in map_modificar key
           (\<lambda>group. group\<lparr>d_pagos := d_pagos group @
                               [\<lparr>pago_id = row_id_pago row, cliente = row_cliente row,
                                 monto = monto, codigo = row_codigo row\<rparr>],
                           d_monto_total := d_monto_total group + monto,
                           d_cantidad_pagos := d_cantidad_pagos group + 1\<rparr>)
           m1)"

text \<open>The body of \<^verbatim>\<open>mapGroups.forEach\<close>, lines 136-148, with the running \<^verbatim>\<open>index\<close>.\<close>

definition grupo_pendiente :: "nat \<times> string \<times> detalles \<Rightarrow> GmailEmailGroup" where
  "grupo_pendiente e =
     (case e of (index, nombreProveedor, detalles) \<Rightarrow>
        \<lparr>grupo_id = d_id_proveedor detalles,
         proveedorNombre = nombreProveedor,
         correoContacto = d_correo detalles,
         color = (if index mod 2 = 0 then teal else brown),
         estado = pendiente,
         pagos = d_pagos detalles,
         totalPagos = int (d_cantidad_pagos detalles),
         totalMonto = d_monto_total detalles\<rparr>)"

definition agruparFilas :: "fila list \<Rightarrow> GmailEmailGroup list" where
  "agruparFilas rows =
     (let mapGroups = foldl paso_agrupar [] rows
      in map grupo_pendiente (enumerate 0 mapGroups))"

text \<open>\<^verbatim>\<open>getResumenPagosDia(usuarioId, fecha?)\<close>, lines 92-163 (the same text in both
  revisions of the service). The first argument is today's date.\<close>

definition getResumenPagosDia ::
  "string \<Rightarrow> db_state \<Rightarrow> nat \<Rightarrow> string option \<Rightarrow> GmailEmailGroup list ServiceResponse" where
  "getResumenPagosDia fechaLocal db usuarioId fecha =
     (let fechaResumen = fechaResumen_de fecha fechaLocal
      in case obtenerPagosDirectos db usuarioId fechaResumen None of
           Inl err \<Rightarrow>
             \<lparr>success = False, data = None,
              error = Some ''Error obteniendo resumen de pagos (Direct Query)'',
              statusCode = 500\<rparr>
         | Inr rows \<Rightarrow>
             \<lparr>success = True, data = Some (agruparFilas rows), error = None,
              statusCode = 200\<rparr>)"

subsection \<open>The summary of sent batches: \<^verbatim>\<open>getResumenEnviosFecha\<close>\<close>

text \<open>
  The parsed reply of the SQL function \<^verbatim>\<open>resumen_envios_fecha_get\<close>, with the fields
  that the service reads. \<open>None\<close> is a field that is absent or \<^verbatim>\<open>null\<close>; for the two
  fields of \<^verbatim>\<open>resumen\<close> it is a value whose \<^verbatim>\<open>typeof\<close> is not \<^verbatim>\<open>'number'\<close>
  (also when \<^verbatim>\<open>resumen\<close> itself is absent).
\<close>

record pago_json =
  j_id_pago :: nat
  j_cliente :: string
  j_monto :: rat
  j_codigo :: "string option"

record detalles_json =
  dj_id_proveedor :: nat
  dj_correo :: string
  dj_pagos :: "pago_json list option"
  dj_resumen_cantidad_pagos :: "int option"
  dj_resumen_monto_total :: "rat option"

record resumen_parsed =
  rp_status :: "int option"
  rp_estado :: "int option"
  rp_message :: "string option"
  rp_mensaje :: "string option"
  rp_data :: "(string \<times> detalles_json option) list option"
  rp_datos :: "(string \<times> detalles_json option) list option"

text \<open>\<^verbatim>\<open>a ?? b\<close>.\<close>

definition nullish :: "'a option \<Rightarrow> 'a option \<Rightarrow> 'a option" where
  "nullish a b = (case a of None \<Rightarrow> b | Some x \<Rightarrow> Some x)"

definition pago_de_json :: "pago_json \<Rightarrow> GmailPaymentRecord" where
  "pago_de_json pago =
     \<lparr>pago_id = j_id_pago pago, cliente = j_cliente pago, monto = j_monto pago,
      codigo = j_codigo pago\<rparr>"

text \<open>\<^verbatim>\<open>pagos.reduce((acc, p) => acc + (p.monto || 0), 0)\<close>.\<close>

definition sumaMontos :: "GmailPaymentRecord list \<Rightarrow> rat" where
  "sumaMontos ps = foldl (\<lambda>acc p. acc + (if monto p = 0 then 0 else monto p)) 0 ps"

text \<open>The body of \<^verbatim>\<open>proveedores.forEach\<close> in GmailGenService.ts, lines 425-445: the
  totals are computed from \<open>pagos\<close>. An entry without \<open>detalles\<close> gives no group.\<close>

definition grupo_enviado :: "nat \<times> string \<times> detalles_json option \<Rightarrow> GmailEmailGroup list" where
  "grupo_enviado e =
     (case e of (index, nombreProveedor, d) \<Rightarrow>
        (case d of
           None \<Rightarrow> []
         | Some detalles \<Rightarrow>
             (let pagosOrigen = (case dj_pagos detalles of None \<Rightarrow> [] | Some ps \<Rightarrow> ps);
                  pagos = map pago_de_json pagosOrigen
              in [\<lparr>grupo_id = dj_id_proveedor detalles,
                   proveedorNombre = nombreProveedor,
                   correoContacto = dj_correo detalles,
                   color = (if index mod 2 = 0 then teal else brown),
                   estado = enviado,
                   pagos = pagos,
                   totalPagos = int (length pagos),
                   totalMonto = sumaMontos pagos\<rparr>])))"

text \<open>The same loop in the other revision (unnamed/part_001, lines 331-367): a total that
  the reply carries as a number in \<^verbatim>\<open>detalles.resumen\<close> is taken as it is, and only
  otherwise computed from \<open>pagos\<close>.\<close>

definition grupo_enviado_part_001 ::
  "nat \<times> string \<times> detalles_json option \<Rightarrow> GmailEmailGroup list" where
  "grupo_enviado_part_001 e =
     (case e of (index, nombreProveedor, d) \<Rightarrow>
        (case d of
           None \<Rightarrow> []
         | Some detalles \<Rightarrow>
             (let pagosOrigen = (case dj_pagos detalles of None \<Rightarrow> [] | Some ps \<Rightarrow> ps);
                  pagos = map pago_de_json pagosOrigen;
                  totalPagos = (case dj_resumen_cantidad_pagos detalles of
                                  Some n \<Rightarrow> n
                                | None \<Rightarrow> int (length pagos));
                  totalMonto = (case dj_resumen_monto_total detalles of
                                  Some t \<Rightarrow> t
                                | None \<Rightarrow> sumaMontos pagos)
              in [\<lparr>grupo_id = dj_id_proveedor detalles,
                   proveedorNombre = nombreProveedor,
                   correoContacto = dj_correo detalles,
                   color = (if index mod 2 = 0 then teal else brown),
                   estado = enviado,
                   pagos = pagos,
                   totalPagos = totalPagos,
                   totalMonto = totalMonto\<rparr>])))"

text \<open>
  \<^verbatim>\<open>getResumenEnviosFecha\<close> of GmailGenService.ts, lines 390-452. The argument is the
  outcome of the query and of \<^verbatim>\<open>JSON.parse\<close>: \<open>Inl msg\<close> when either throws,
  \<open>Inr None\<close> for a \<^verbatim>\<open>null\<close> reply.
\<close>

definition getResumenEnviosFecha ::
  "string + resumen_parsed option \<Rightarrow> GmailEmailGroup list ServiceResponse" where
  "getResumenEnviosFecha consulta =
     (case consulta of
        Inl err \<Rightarrow>
          \<lparr>success = False, data = None,
           error = Some (''Error obteniendo resumen de env'' @ [CHR 0xED] @ ''os''),
           statusCode = 500\<rparr>
      | Inr None \<Rightarrow>
          \<lparr>success = False, data = None, error = Some [], statusCode = 500\<rparr>
      | Inr (Some parsedResumen) \<Rightarrow>
          (let status = (case nullish (rp_status parsedResumen) (rp_estado parsedResumen) of
                           None \<Rightarrow> 500 | Some s \<Rightarrow> s);
               message = (case nullish (rp_message parsedResumen) (rp_mensaje parsedResumen) of
                            None \<Rightarrow> [] | Some t \<Rightarrow> t);
               datos = (case nullish (rp_data parsedResumen) (rp_datos parsedResumen) of
                          None \<Rightarrow> [] | Some ent \<Rightarrow> ent)
           in if status \<ge> 400
              then \<lparr>success = False, data = None, error = Some message, statusCode = status\<rparr>
              else \<lparr>success = True,
                    data = Some (concat (map grupo_enviado (enumerate 0 datos))),
                    error = None, statusCode = 200\<rparr>))"

text \<open>\<^verbatim>\<open>getResumenEnviosFecha\<close> of unnamed/part_001, lines 286-385.\<close>

definition getResumenEnviosFecha_part_001 ::
  "string + resumen_parsed option \<Rightarrow> GmailEmailGroup list ServiceResponse" where
  "getResumenEnviosFecha_part_001 consulta =
     (case consulta of
        Inl err \<Rightarrow> \<lparr>success = False, data = None, error = Some err, statusCode = 500\<rparr>
      | Inr None \<Rightarrow>
          \<lparr>success = False, data = None,
           error = Some (''Error obteniendo resumen de env'' @ [CHR 0xED]
                         @ ''os para Gmail-GEN''),
           statusCode = 500\<rparr>
      | Inr (Some parsedResumen) \<Rightarrow>
          (let status = (case nullish (rp_status parsedResumen) (rp_estado parsedResumen) of
                           None \<Rightarrow> 500 | Some s \<Rightarrow> s);
               message = (case nullish (rp_message parsedResumen) (rp_mensaje parsedResumen) of
                            None \<Rightarrow> [] | Some t \<Rightarrow> t);
               datos = (case nullish (rp_data parsedResumen) (rp_datos parsedResumen) of
                          None \<Rightarrow> [] | Some ent \<Rightarrow> ent)
           in if status \<ge> 400
              then \<lparr>success = False, data = None,
                    error = Some (if message = []
                                  then ''Error obteniendo resumen de env''
                                       @ [CHR 0xED] @ ''os para Gmail-GEN''
                                  else message),
                    statusCode = status\<rparr>
              else \<lparr>success = True,
                    data = Some (concat (map grupo_enviado_part_001 (enumerate 0 datos))),
                    error = None, statusCode = 200\<rparr>))"

subsection \<open>The dispatch: \<^verbatim>\<open>enviarCorreoProveedor\<close>\<close>

text \<open>Lines 209-211: \<^verbatim>\<open>(asunto && asunto.trim()) || `Confirmacion de pagos - ...`\<close> and
  the same for the body. The value used is \<^verbatim>\<open>asunto.trim()\<close>.\<close>

definition asuntoFinal :: "string option \<Rightarrow> string \<Rightarrow> string" where
  "asuntoFinal asunto nombreProveedor =
     (case asunto of
        None \<Rightarrow> ''Confirmaci'' @ [CHR 0xF3] @ ''n de pagos - '' @ nombreProveedor
      | Some a \<Rightarrow>
          if a \<noteq> [] \<and> trim a \<noteq> [] then trim a
          else ''Confirmaci'' @ [CHR 0xF3] @ ''n de pagos - '' @ nombreProveedor)"

definition mensajeFinal :: "string option \<Rightarrow> nat \<Rightarrow> rat \<Rightarrow> string \<Rightarrow> string" where
  "mensajeFinal mensaje cantidadPagos montoTotal fechaResumen =
     (case mensaje of
        None \<Rightarrow>
          ''Estimado proveedor, le enviamos el resumen de '' @ digitos cantidadPagos
          @ '' pago(s) por un total de '' @ toFixed2 montoTotal
          @ '' correspondiente a la fecha '' @ fechaResumen @ ''.''
      | Some m \<Rightarrow>
          if m \<noteq> [] \<and> trim m \<noteq> [] then trim m
          else ''Estimado proveedor, le enviamos el resumen de '' @ digitos cantidadPagos
               @ '' pago(s) por un total de '' @ toFixed2 montoTotal
               @ '' correspondiente a la fecha '' @ fechaResumen @ ''.'')"

text \<open>\<^verbatim>\<open>infoCorreoExtendido\<close> and \<^verbatim>\<open>webhookPayload\<close>, lines 213-230.\<close>

record infoCorreoExtendido =
  ic_fecha :: string
  ic_correo :: string
  ic_proveedor :: string
  ic_monto_total :: rat
  ic_cantidad_pagos :: nat
  ic_asunto :: string
  ic_mensaje :: string

record info_pago =
  ip_monto :: rat
  ip_codigo :: "string option"
  ip_cliente :: string

record webhookPayload =
  info_correo :: infoCorreoExtendido
  info_pagos :: "info_pago list"

text \<open>The nine \<^verbatim>\<open>replacements\<close> of the call of
  \<^verbatim>\<open>registrar_envio_correo_con_detalles\<close>, lines 275-285. The two array literals
  \<^verbatim>\<open>`{${ids.join(',')}}`\<close> are kept as the lists they denote.\<close>

record registrar_args =
  proveedor_id :: nat
  usuario_envio_id :: nat
  fecha_resumen :: string
  cantidad_pagos :: nat
  monto_total :: rat
  asunto_correo :: string
  cuerpo_correo :: string
  ids_pagos_tarjeta :: "nat list"
  ids_pagos_bancario :: "nat list"

text \<open>\<^verbatim>\<open>parsedRegistrar\<close>: \<open>None\<close> is an absent field.\<close>

record 'e registrar_reply =
  reg_status :: "int option"
  reg_message :: "string option"
  reg_data :: 'e

text \<open>The \<^verbatim>\<open>data\<close> of a successful dispatch, lines 306-311.\<close>

record 'e reporte =
  envio :: 'e
  infoCorreo :: infoCorreoExtendido
  infoPagos :: "GmailPaymentRecord list"
  webhook :: json

text \<open>The loop of lines 257-267 over \<open>pagos\<close>, with the two arrays it fills:
  \<^verbatim>\<open>String(p.codigo || '').toUpperCase().startsWith('BANCO-')\<close> sends the id to
  \<open>idsPagosBancario\<close>, anything else to \<open>idsPagosTarjeta\<close>.\<close>

definition esBancario :: "GmailPaymentRecord \<Rightarrow> bool" where
  "esBancario p =
     (let codigoStr = toUpperCase (case codigo p of None \<Rightarrow> [] | Some c \<Rightarrow> c)
      in startsWith codigoStr ''BANCO-'')"

definition paso_clasificar :: "nat list \<times> nat list \<Rightarrow> GmailPaymentRecord \<Rightarrow> nat list \<times> nat list" where
  "paso_clasificar ids p =
     (case ids of (idsPagosTarjeta, idsPagosBancario) \<Rightarrow>
        if esBancario p then (idsPagosTarjeta, idsPagosBancario @ [pago_id p])
        else (idsPagosTarjeta @ [pago_id p], idsPagosBancario))"

definition clasificarPagos :: "GmailPaymentRecord list \<Rightarrow> nat list \<times> nat list" where
  "clasificarPagos ps = foldl paso_clasificar ([], []) ps"

text \<open>What one run of the dispatch leaves behind: the response, the store, the payloads
  posted to the webhook and the calls of the persistence function, in order.\<close>

record 'e traza =
  respuesta :: "'e reporte ServiceResponse"
  bd :: db_state
  enviados :: "webhookPayload list"
  registrados :: "registrar_args list"

definition pago_de_fila :: "fila \<Rightarrow> GmailPaymentRecord" where
  "pago_de_fila r =
     \<lparr>pago_id = row_id_pago r, cliente = row_cliente r, monto = row_monto r,
      codigo = row_codigo r\<rparr>"

definition sin_pagos_pendientes :: "'e reporte ServiceResponse" where
  "sin_pagos_pendientes =
     \<lparr>success = False, data = None,
      error = Some ''No se encontraron pagos pendientes para este proveedor (Pagado + Activo).'',
      statusCode = 404\<rparr>"

text \<open>
  \<^verbatim>\<open>enviarCorreoProveedor(usuarioId, proveedorId, fecha?, asunto?, mensaje?)\<close> of
  GmailGenService.ts, lines 169-322. Parameters of the model before those of the method:
  \<^item> \<open>registrar\<close>: the SQL function \<^verbatim>\<open>registrar_envio_correo_con_detalles\<close>, which is
    not among the sources: from the nine arguments and the store to the outcome of the
    query and of \<^verbatim>\<open>JSON.parse\<close> (\<open>Inl msg\<close> when either throws, \<open>Inr None\<close> for a
    \<^verbatim>\<open>null\<close> reply) and the store it leaves;
  \<^item> \<open>axios_post\<close>: the outcome of the POST to the n8n webhook for a payload;
  \<^item> \<open>fechaLocal\<close>: today's date.
  \<open>estadoEnvio\<close> is bound as in the source, and as in the source nothing reads it.
\<close>

definition enviarCorreoProveedor ::
  "(registrar_args \<Rightarrow> db_state \<Rightarrow> (string + 'e registrar_reply option) \<times> db_state)
   \<Rightarrow> (webhookPayload \<Rightarrow> string + json) \<Rightarrow> string
   \<Rightarrow> db_state \<Rightarrow> nat \<Rightarrow> nat \<Rightarrow> string option \<Rightarrow> string option \<Rightarrow> string option
   \<Rightarrow> 'e traza" where
  "enviarCorreoProveedor registrar axios_post fechaLocal db usuarioId proveedorId fecha asunto mensaje =
     (let fechaResumen = fechaResumen_de fecha fechaLocal
      in case obtenerPagosDirectos db usuarioId fechaResumen (Some proveedorId) of
           Inl err \<Rightarrow>
             \<lparr>respuesta = \<lparr>success = False, data = None, error = Some err, statusCode = 500\<rparr>,
              bd = db, enviados = [], registrados = []\<rparr>
         | Inr [] \<Rightarrow>
             \<lparr>respuesta = sin_pagos_pendientes, bd = db, enviados = [], registrados = []\<rparr>
         | Inr (firstRow # resto) \<Rightarrow>
             (let rows = firstRow # resto;
                  proveedorNombre = row_nombre_proveedor firstRow;
                  correoProveedor = row_correo firstRow;
                  pagos = map pago_de_fila rows;
                  cantidadPagos = length pagos;
                  montoTotal = sumaMontos pagos;
                  asuntoF = asuntoFinal asunto proveedorNombre;
                  mensajeF = mensajeFinal mensaje cantidadPagos montoTotal fechaResumen;
                  infoCorreoExt =
                    \<lparr>ic_fecha = fechaResumen, ic_correo = correoProveedor,
                     ic_proveedor = proveedorNombre, ic_monto_total = montoTotal,
                     ic_cantidad_pagos = cantidadPagos, ic_asunto = asuntoF,
                     ic_mensaje = mensajeF\<rparr>;
                  payload =
                    \<lparr>info_correo = infoCorreoExt,
                     info_pagos = map (\<lambda>p. \<lparr>ip_monto = monto p, ip_codigo = codigo p,
                                               ip_cliente = cliente p\<rparr>) pagos\<rparr>;
                  (webhookResponseData, estadoEnvio) = paso_webhook (axios_post payload);
                  (idsPagosTarjeta, idsPagosBancario) = clasificarPagos pagos;
                  args =
                    \<lparr>proveedor_id = proveedorId, usuario_envio_id = usuarioId,
                     fecha_resumen = fechaResumen, cantidad_pagos = cantidadPagos,
                     monto_total = montoTotal, asunto_correo = asuntoF,
                     cuerpo_correo = mensajeF, ids_pagos_tarjeta = idsPagosTarjeta,
                     ids_pagos_bancario = idsPagosBancario\<rparr>;
                  (registrarResult, db') = registrar args db;
                  resp =
                    (case registrarResult of
                       Inl err \<Rightarrow>
                         \<lparr>success = False, data = None, error = Some err, statusCode = 500\<rparr>
                     | Inr None \<Rightarrow>
                         \<lparr>success = False, data = None,
                          error = Some (''Error registrando el env'' @ [CHR 0xED]
                                        @ ''o de correo''),
                          statusCode = 500\<rparr>
                     | Inr (Some parsedRegistrar) \<Rightarrow>
                         if (case reg_status parsedRegistrar of
                               None \<Rightarrow> False | Some s \<Rightarrow> s \<ge> 400)
                         then \<lparr>success = False, data = None,
                               error = Some (case reg_message parsedRegistrar of
                                               None \<Rightarrow> ''Error registrando el env''
                                                       @ [CHR 0xED] @ ''o de correo''
                                             | Some t \<Rightarrow>
                                                 if t = []
                                                 then ''Error registrando el env''
                                                      @ [CHR 0xED] @ ''o de correo''
                                                 else t),
                               statusCode = (case reg_status parsedRegistrar of
                                               None \<Rightarrow> 500
                                             | Some s \<Rightarrow> if s = 0 then 500 else s)\<rparr>
                         else \<lparr>success = True,
                               data = Some \<lparr>envio = reg_data parsedRegistrar,
                                            infoCorreo = infoCorreoExt,
                                            infoPagos = pagos,
                                            webhook = webhookResponseData\<rparr>,
                               error = None, statusCode = 200\<rparr>)
              in \<lparr>respuesta = resp, bd = db', enviados = [payload], registrados = [args]\<rparr>))"

text \<open>
  Modelled from the spec: the SQL function \<^verbatim>\<open>registrar_envio_correo_con_detalles\<close>,
  whose text is not among the sources. Following section 4.4 step 5 of the specification
  (and the note at lines 293-294 of the service), one write adds a Delivery row built from
  the arguments and links every identifier of both lists to it in
  \<open>detalle_envio_correo\<close>. The call passes no status, so the status of the row is a
  parameter \<open>estado_bd\<close> of the model: whatever the store writes on its own. The reply
  carries status 200 and the row. When the store cannot be reached nothing is written.
\<close>

definition registrar_envio_correo_con_detalles ::
  "string \<Rightarrow> registrar_args \<Rightarrow> db_state
   \<Rightarrow> (string + envio_fila registrar_reply option) \<times> db_state" where
  "registrar_envio_correo_con_detalles estado_bd args db =
     (case caida db of
        Some err \<Rightarrow> (Inl err, db)
      | None \<Rightarrow>
          (let nuevo_id = Suc (foldl max 0 (map e_id_envio (t_envios_correo db)));
               fila_envio =
                 \<lparr>e_id_envio = nuevo_id, e_proveedor_id = proveedor_id args,
                  e_usuario_envio_id = usuario_envio_id args,
                  e_fecha_resumen = fecha_resumen args,
                  e_cantidad_pagos = cantidad_pagos args,
                  e_monto_total = monto_total args,
                  e_asunto_correo = asunto_correo args,
                  e_cuerpo_correo = cuerpo_correo args,
                  e_estado = estado_bd\<rparr>;
               enlaces = map (\<lambda>i. \<lparr>dec_envio_id = nuevo_id, dec_pago_id = i\<rparr>)
                             (ids_pagos_tarjeta args @ ids_pagos_bancario args)
           in (Inr (Some \<lparr>reg_status = Some 200, reg_message = None, reg_data = fila_envio\<rparr>),
               db\<lparr>t_envios_correo := t_envios_correo db @ [fila_envio],
                  t_detalle_envio_correo := t_detalle_envio_correo db @ enlaces\<rparr>)))"

subsection \<open>A concrete store\<close>

text \<open>Provider ACME (id 7) with two payments of operator 3 on 2024-05-01, of 10.00 and
  15.50, one with a card code and one with a bank code.\<close>

definition db0 :: db_state where
  "db0 =
     \<lparr>caida = None,
      t_pagos =
        [\<lparr>p_id_pago = 101, p_usuario_id = 3, p_proveedor_id = 7, p_cliente = ''Ana'',
          p_monto = 10, p_codigo = Some ''TARJ-001'', p_estado = ''PAGADO'',
          p_esta_activo = True, p_esta_verificado = False, p_fecha_pago = ''2024-05-01''\<rparr>,
         \<lparr>p_id_pago = 102, p_usuario_id = 3, p_proveedor_id = 7, p_cliente = ''Luis'',
          p_monto = 31 / 2, p_codigo = Some ''BANCO-001'', p_estado = ''PAGADO'',
          p_esta_activo = True, p_esta_verificado = True, p_fecha_pago = ''2024-05-01''\<rparr>],
      t_proveedores = [\<lparr>pr_id = 7, pr_nombre = ''ACME'', pr_correo = ''pagos@acme.test''\<rparr>],
      t_detalle_envio_correo = [],
      t_envios_correo = []\<rparr>"

text \<open>Two gateway stubs: a webhook that answers with a success body, and one whose call
  runs into the timeout.\<close>

definition gw_ok :: "webhookPayload \<Rightarrow> string + json" where
  "gw_ok payload = Inr (JObj [(''estado'', JBool True)])"

definition gw_timeout :: "webhookPayload \<Rightarrow> string + json" where
  "gw_timeout payload = Inl ''timeout of 15000ms exceeded''"

text \<open>A persistence function that fails: the query rejects and the store is left as it
  was.\<close>

definition reg_falla ::
  "registrar_args \<Rightarrow> db_state \<Rightarrow> (string + envio_fila registrar_reply option) \<times> db_state" where
  "reg_falla args db = (Inl ''connection terminated unexpectedly'', db)"

text \<open>A response with the raw webhook body of its report blanked: what the caller
  receives apart from the field \<^verbatim>\<open>webhook\<close>.\<close>

definition sin_webhook :: "'e reporte ServiceResponse \<Rightarrow> 'e reporte ServiceResponse" where
  "sin_webhook r = r\<lparr>data := map_option (\<lambda>d. d\<lparr>webhook := JNull\<rparr>) (data r)\<rparr>"

text \<open>Three payment records: a bank code, a card code and an empty code.\<close>

definition pagos_ejemplo :: "GmailPaymentRecord list" where
  "pagos_ejemplo =
     [\<lparr>pago_id = 1, cliente = ''Ana'', monto = 10, codigo = Some ''BANCO-001''\<rparr>,
      \<lparr>pago_id = 2, cliente = ''Luis'', monto = 20, codigo = Some ''TARJ-001''\<rparr>,
      \<lparr>pago_id = 3, cliente = ''Eva'', monto = 30, codigo = Some []\<rparr>]"

text \<open>A store with two providers whose names differ in case, and payments entered in the
  order alfa, Zeta, alfa.\<close>

definition db_orden :: db_state where
  "db_orden =
     \<lparr>caida = None,
      t_pagos =
        [\<lparr>p_id_pago = 201, p_usuario_id = 3, p_proveedor_id = 8, p_cliente = ''Ana'',
          p_monto = 5, p_codigo = Some ''TARJ-010'', p_estado = ''PAGADO'',
          p_esta_activo = True, p_esta_verificado = True, p_fecha_pago = ''2024-05-01''\<rparr>,
         \<lparr>p_id_pago = 202, p_usuario_id = 3, p_proveedor_id = 9, p_cliente = ''Luis'',
          p_monto = 7, p_codigo = None, p_estado = ''PAGADO'',
          p_esta_activo = True, p_esta_verificado = True, p_fecha_pago = ''2024-05-01''\<rparr>,
         \<lparr>p_id_pago = 203, p_usuario_id = 3, p_proveedor_id = 8, p_cliente = ''Eva'',
          p_monto = 1 / 4, p_codigo = Some ''BANCO-7'', p_estado = ''PAGADO'',
          p_esta_activo = True, p_esta_verificado = False, p_fecha_pago = ''2024-05-01''\<rparr>],
      t_proveedores =
        [\<lparr>pr_id = 8, pr_nombre = ''alfa'', pr_correo = ''a@alfa.test''\<rparr>,
         \<lparr>pr_id = 9, pr_nombre = ''Zeta'', pr_correo = ''z@zeta.test''\<rparr>],
      t_detalle_envio_correo = [],
      t_envios_correo = []\<rparr>"

text \<open>A reply of \<^verbatim>\<open>resumen_envios_fecha_get\<close> whose \<^verbatim>\<open>resumen\<close> carries totals (5
  payments, 99) that differ from the one member payment of 10.\<close>

definition resumen_ejemplo :: resumen_parsed where
  "resumen_ejemplo =
     \<lparr>rp_status = Some 200, rp_estado = None, rp_message = Some ''ok'', rp_mensaje = None,
      rp_data = Some [(''ACME'',
                 Some \<lparr>dj_id_proveedor = 7, dj_correo = ''pagos@acme.test'',
                       dj_pagos = Some [\<lparr>j_id_pago = 101, j_cliente = ''Ana'', j_monto = 10,
                                          j_codigo = Some ''TARJ-001''\<rparr>],
                       dj_resumen_cantidad_pagos = Some 5,
                       dj_resumen_monto_total = Some 99\<rparr>)],
      rp_datos = None\<rparr>"

text \<open>The invariant of the grouping loop: in every entry of \<^verbatim>\<open>mapGroups\<close> the running
  totals are those of the payments pushed so far.\<close>

definition inv_totales :: "(string \<times> detalles) list \<Rightarrow> bool" where
  "inv_totales m =
     list_all (\<lambda>kd. d_monto_total (snd kd) = sum_list (map monto (d_pagos (snd kd)))
                   \<and> d_cantidad_pagos (snd kd) = length (d_pagos (snd kd))) m"

text \<open>The nine arguments that the dispatch for provider 7 on \<open>db0\<close> passes to the persistence
  function.\<close>

definition args0 :: registrar_args where
  "args0 =
     \<lparr>proveedor_id = 7, usuario_envio_id = 3, fecha_resumen = ''2024-05-01'',
      cantidad_pagos = 2, monto_total = 51 / 2,
      asunto_correo = ''Confirmaci'' @ [CHR 0xF3] @ ''n de pagos - ACME'',
      cuerpo_correo = ''Estimado proveedor, le enviamos el resumen de 2 pago(s) por un total de 25.50 correspondiente a la fecha 2024-05-01.'',
      ids_pagos_tarjeta = [101], ids_pagos_bancario = [102]\<rparr>"

section \<open>Auxiliary facts\<close>

lemma foldl_suma: "foldl (\<lambda>acc p. acc + monto p) a ps = a + sum_list (map monto ps)"
proof (induction ps arbitrary: a)
  case Nil
  show ?case by simp
next
  case (Cons p ps)
  show ?case by (simp add: Cons.IH add.assoc)
qed

lemma sumaMontos_sum_list: "sumaMontos ps = sum_list (map monto ps)"
  by (simp add: sumaMontos_def foldl_suma)

lemma foldl_clasificar:
  "foldl paso_clasificar (ts, bs) ps =
     (ts @ map pago_id (filter (\<lambda>p. \<not> esBancario p) ps),
      bs @ map pago_id (filter esBancario ps))"
  by (induction ps arbitrary: ts bs) (auto simp: paso_clasificar_def)

lemma clasificarPagos_filter:
  "clasificarPagos ps =
     (map pago_id (filter (\<lambda>p. \<not> esBancario p) ps), map pago_id (filter esBancario ps))"
  by (simp add: clasificarPagos_def foldl_clasificar)

lemma trim_Nil: "trim [] = []"
  by (simp add: trim_def)

lemma trim_sin_bordes:
  assumes "a \<noteq> []" "\<not> es_espacio (hd a)" "\<not> es_espacio (last a)"
  shows "trim a = a"
proof -
  have 1: "dropWhile es_espacio a = a" using assms by (cases a) auto
  have "rev a \<noteq> []" "\<not> es_espacio (hd (rev a))" using assms by (auto simp: hd_rev)
  then have 2: "dropWhile es_espacio (rev a) = rev a" by (cases "rev a") auto
  show ?thesis by (simp add: trim_def 1 2)
qed

lemma esBancario_prefijo: "codigo p = Some (''BANCO-'' @ resto) \<Longrightarrow> esBancario p"
  by (simp add: esBancario_def toUpperCase_def toUpperCase_char_def startsWith_def)

lemma toFixed2_ejemplo: "toFixed2 (51 / 2) = ''25.50''"
  by code_simp

lemma digitos_2: "digitos 2 = ''2''"
  by code_simp

lemma db0_campos:
  "caida db0 = None" "t_envios_correo db0 = []" "t_detalle_envio_correo db0 = []"
  by (simp_all add: db0_def)

lemma filas_db0:
  "obtenerPagosDirectos db0 3 ''2024-05-01'' (Some 7) =
     Inr [\<lparr>row_id_pago = 101, row_cliente = ''Ana'', row_monto = 10,
           row_codigo = Some ''TARJ-001'', row_id_proveedor = 7,
           row_nombre_proveedor = ''ACME'', row_correo = ''pagos@acme.test''\<rparr>,
          \<lparr>row_id_pago = 102, row_cliente = ''Luis'', row_monto = 31 / 2,
           row_codigo = Some ''BANCO-001'', row_id_proveedor = 7,
           row_nombre_proveedor = ''ACME'', row_correo = ''pagos@acme.test''\<rparr>]"
  by (simp add: obtenerPagosDirectos_def condicion_def seleccion_def db0_def)

lemma filas_db0_caida:
  "obtenerPagosDirectos (db0\<lparr>caida := Some e\<rparr>) 3 ''2024-05-01'' (Some 7) = Inl e"
  by (simp add: obtenerPagosDirectos_def)

text \<open>Once every row that a query selects has a link in \<open>detalle_envio_correo\<close>, and
  nothing else that the query reads has changed, the same query selects nothing.\<close>

lemma consulta_tras_enlaces:
  assumes q: "obtenerPagosDirectos db u f prov = Inr rows"
    and c: "caida db' = caida db"
    and pg: "t_pagos db' = t_pagos db"
    and pr: "t_proveedores db' = t_proveedores db"
    and viejos: "set (map dec_pago_id (t_detalle_envio_correo db))
                   \<subseteq> set (map dec_pago_id (t_detalle_envio_correo db'))"
    and ids: "row_id_pago ` set rows \<subseteq> set (map dec_pago_id (t_detalle_envio_correo db'))"
  shows "obtenerPagosDirectos db' u f prov = Inr []"
proof -
  let ?xs = "List.product (t_pagos db) (t_proveedores db)"
  from q have c0: "caida db = None"
    by (auto simp: obtenerPagosDirectos_def split: option.splits)
  with q have rows: "set rows = seleccion ` set (filter (condicion db u f prov) ?xs)"
    by (auto simp: obtenerPagosDirectos_def)
  have "\<not> condicion db' u f prov x" if x: "x \<in> set ?xs" for x
  proof
    assume c': "condicion db' u f prov x"
    obtain p0 pr0 where xp: "x = (p0, pr0)" by (cases x)
    from c' xp have n: "p_id_pago p0 \<notin> set (map dec_pago_id (t_detalle_envio_correo db'))"
      by (simp add: condicion_def)
    with viejos have "p_id_pago p0 \<notin> set (map dec_pago_id (t_detalle_envio_correo db))"
      by blast
    with c' xp have "condicion db u f prov x"
      by (simp add: condicion_def)
    with x rows have "seleccion x \<in> set rows" by auto
    then have "p_id_pago p0 \<in> row_id_pago ` set rows"
      using xp by (force simp: seleccion_def)
    with ids n show False by blast
  qed
  then have "filter (condicion db' u f prov) ?xs = []"
    by (simp add: filter_empty_conv)
  then show ?thesis using c c0 pg pr by (simp add: obtenerPagosDirectos_def)
qed

lemma ids_clasificados:
  "set (fst (clasificarPagos ps)) \<union> set (snd (clasificarPagos ps)) = pago_id ` set ps"
  by (auto simp: clasificarPagos_filter)

lemma enviar_vacio:
  "obtenerPagosDirectos db u (fechaResumen_de fecha hoy) (Some p) = Inr [] \<Longrightarrow>
   enviarCorreoProveedor reg gw hoy db u p fecha a m
     = \<lparr>respuesta = sin_pagos_pendientes, bd = db, enviados = [], registrados = []\<rparr>"
  by (simp add: enviarCorreoProveedor_def)

lemma registrados_ids:
  assumes "obtenerPagosDirectos db u (fechaResumen_de fecha hoy) (Some p) = Inr (r # rs)"
  shows "\<exists>args. registrados (enviarCorreoProveedor reg gw hoy db u p fecha a m) = [args]
           \<and> row_id_pago ` set (r # rs) \<subseteq> set (ids_pagos_tarjeta args @ ids_pagos_bancario args)"
proof -
  let ?ps = "map pago_de_fila (r # rs)"
  have "row_id_pago ` set (r # rs) \<subseteq> set (fst (clasificarPagos ?ps) @ snd (clasificarPagos ?ps))"
    using ids_clasificados [of ?ps] by (force simp: pago_de_fila_def)
  then show ?thesis
    using assms by (simp add: enviarCorreoProveedor_def Let_def case_prod_beta)
qed

lemma claves_modificar: "map fst (map_modificar k f m) = map fst m"
  by (induction m) (auto simp: map_modificar_def)

lemma claves_paso:
  "map fst (paso_agrupar m row) =
     (if row_nombre_proveedor row \<in> set (map fst m) then map fst m
      else map fst m @ [row_nombre_proveedor row])"
  by (simp add: paso_agrupar_def Let_def claves_modificar map_has_def)

lemma sorted_agrupar:
  "sorted (map fst m @ map row_nombre_proveedor rows)
   \<Longrightarrow> sorted (map fst (foldl paso_agrupar m rows))"
proof (induction rows arbitrary: m)
  case Nil
  then show ?case by simp
next
  case (Cons row rows)
  have "sorted (map fst (paso_agrupar m row) @ map row_nombre_proveedor rows)"
    using Cons.prems by (auto simp: claves_paso sorted_append)
  then show ?case using Cons.IH by simp
qed

lemma distinct_agrupar:
  "distinct (map fst m) \<Longrightarrow> distinct (map fst (foldl paso_agrupar m rows))"
proof (induction rows arbitrary: m)
  case Nil
  then show ?case by simp
next
  case (Cons row rows)
  have "distinct (map fst (paso_agrupar m row))"
    using Cons.prems by (auto simp: claves_paso)
  then show ?case using Cons.IH by simp
qed

lemma nombres_grupos:
  "map proveedorNombre (map grupo_pendiente (enumerate n m)) = map fst m"
  by (induction m arbitrary: n) (auto simp: grupo_pendiente_def)

lemma filas_ordenadas:
  "obtenerPagosDirectos db u f prov = Inr rows \<Longrightarrow> sorted (map row_nombre_proveedor rows)"
  by (auto simp: obtenerPagosDirectos_def split: option.splits)

lemma grupos_db_orden:
  "data (getResumenPagosDia ''2024-05-01'' db_orden 3 None) =
     Some [\<lparr>grupo_id = 9, proveedorNombre = ''Zeta'', correoContacto = ''z@zeta.test'',
            color = teal, estado = pendiente,
            pagos = [\<lparr>pago_id = 202, cliente = ''Luis'', monto = 7, codigo = None\<rparr>],
            totalPagos = 1, totalMonto = 7\<rparr>,
           \<lparr>grupo_id = 8, proveedorNombre = ''alfa'', correoContacto = ''a@alfa.test'',
            color = brown, estado = pendiente,
            pagos = [\<lparr>pago_id = 201, cliente = ''Ana'', monto = 5, codigo = Some ''TARJ-010''\<rparr>,
                     \<lparr>pago_id = 203, cliente = ''Eva'', monto = 1 / 4, codigo = Some ''BANCO-7''\<rparr>],
            totalPagos = 2, totalMonto = 21 / 4\<rparr>]"
  by (simp add: getResumenPagosDia_def obtenerPagosDirectos_def condicion_def seleccion_def
        db_orden_def fechaResumen_de_def agruparFilas_def paso_agrupar_def map_has_def
        map_modificar_def grupo_pendiente_def enumerate_eq_zip Let_def)

lemma inv_paso: "inv_totales m \<Longrightarrow> inv_totales (paso_agrupar m row)"
  by (auto simp: inv_totales_def paso_agrupar_def map_modificar_def Let_def list_all_iff)

lemma inv_agrupar: "inv_totales m \<Longrightarrow> inv_totales (foldl paso_agrupar m rows)"
  by (induction rows arbitrary: m) (auto simp: inv_paso)

lemma totales_pendientes:
  assumes "g \<in> set (agruparFilas rows)"
  shows "totalMonto g = sum_list (map monto (pagos g)) \<and> totalPagos g = int (length (pagos g))"
proof -
  have "inv_totales (foldl paso_agrupar [] rows)"
    by (rule inv_agrupar) (simp add: inv_totales_def)
  moreover from assms obtain e where e: "e \<in> set (enumerate 0 (foldl paso_agrupar [] rows))"
    and g: "g = grupo_pendiente e"
    by (auto simp: agruparFilas_def Let_def)
  obtain i k d where ikd: "e = (i, k, d)" by (cases e)
  from e ikd have "(k, d) \<in> set (foldl paso_agrupar [] rows)"
    by (auto simp: enumerate_eq_zip dest: set_zip_rightD)
  moreover note g ikd
  ultimately show ?thesis
    by (auto simp: inv_totales_def list_all_iff grupo_pendiente_def)
qed

lemma totales_enviados:
  assumes "g \<in> set (concat (map grupo_enviado es))"
  shows "totalMonto g = sum_list (map monto (pagos g)) \<and> totalPagos g = int (length (pagos g))"
  using assms
  by (auto simp: grupo_enviado_def sumaMontos_sum_list comp_def Let_def split: option.splits)

lemma enviados_ejemplo:
  "data (getResumenEnviosFecha (Inr (Some resumen_ejemplo))) =
     Some [\<lparr>grupo_id = 7, proveedorNombre = ''ACME'', correoContacto = ''pagos@acme.test'',
            color = teal, estado = enviado,
            pagos = [\<lparr>pago_id = 101, cliente = ''Ana'', monto = 10, codigo = Some ''TARJ-001''\<rparr>],
            totalPagos = 1, totalMonto = 10\<rparr>]"
  by (simp add: getResumenEnviosFecha_def resumen_ejemplo_def nullish_def grupo_enviado_def
        pago_de_json_def sumaMontos_def enumerate_eq_zip Let_def)

lemma clasificar_db0:
  "clasificarPagos
     [pago_de_fila \<lparr>row_id_pago = 101, row_cliente = ''Ana'', row_monto = 10,
        row_codigo = Some ''TARJ-001'', row_id_proveedor = 7,
        row_nombre_proveedor = ''ACME'', row_correo = ''pagos@acme.test''\<rparr>,
      pago_de_fila \<lparr>row_id_pago = 102, row_cliente = ''Luis'', row_monto = 31 / 2,
        row_codigo = Some ''BANCO-001'', row_id_proveedor = 7,
        row_nombre_proveedor = ''ACME'', row_correo = ''pagos@acme.test''\<rparr>]
   = ([101], [102])"
  by (simp add: clasificarPagos_def paso_clasificar_def esBancario_def pago_de_fila_def
        toUpperCase_def toUpperCase_char_def startsWith_def)

lemma suma_db0:
  "sumaMontos
     [pago_de_fila \<lparr>row_id_pago = 101, row_cliente = ''Ana'', row_monto = 10,
        row_codigo = Some ''TARJ-001'', row_id_proveedor = 7,
        row_nombre_proveedor = ''ACME'', row_correo = ''pagos@acme.test''\<rparr>,
      pago_de_fila \<lparr>row_id_pago = 102, row_cliente = ''Luis'', row_monto = 31 / 2,
        row_codigo = Some ''BANCO-001'', row_id_proveedor = 7,
        row_nombre_proveedor = ''ACME'', row_correo = ''pagos@acme.test''\<rparr>]
   = 51 / 2"
  by (simp add: sumaMontos_def pago_de_fila_def)

text \<open>On \<open>db0\<close> the dispatch for provider 7 calls the persistence function once, with
  \<open>args0\<close>, and leaves the store that this call leaves, whatever the gateway does.\<close>

lemma llamada_db0:
  "registrados (enviarCorreoProveedor reg gw ''2024-05-01'' db0 3 7 None None None) = [args0]
   \<and> bd (enviarCorreoProveedor reg gw ''2024-05-01'' db0 3 7 None None None)
       = snd (reg args0 db0)"
proof -
  have m: "mensajeFinal None (Suc (Suc 0)) (51 / 2) ''2024-05-01'' = cuerpo_correo args0"
    using toFixed2_ejemplo digitos_2
    by (simp add: mensajeFinal_def args0_def numeral_2_eq_2)
  have a: "asuntoFinal None ''ACME'' = asunto_correo args0"
    by (simp add: asuntoFinal_def args0_def)
  have r: "\<lparr>proveedor_id = 7, usuario_envio_id = 3, fecha_resumen = ''2024-05-01'',
      cantidad_pagos = Suc (Suc 0), monto_total = 51 / 2,
      asunto_correo = asunto_correo args0,
      cuerpo_correo = cuerpo_correo args0,
      ids_pagos_tarjeta = [101], ids_pagos_bancario = [102]\<rparr> = args0"
    by (simp add: args0_def)
  show ?thesis
    by (simp add: enviarCorreoProveedor_def fechaResumen_de_def filas_db0 clasificar_db0
          suma_db0 m a r Let_def case_prod_beta)
qed

section \<open>The claims\<close>

text \<open>
  C4 (as amended). The gateway step always yields an outcome: a call that rejects
  (transport failure, timeout) gives \<^verbatim>\<open>ERROR_WEBHOOK\<close>; a call that resolves keeps its
  body and gives \<^verbatim>\<open>ERROR_WEBHOOK\<close> exactly when the body has a truthy \<^verbatim>\<open>code\<close> field
  together with an \<^verbatim>\<open>estado\<close> field that is the boolean \<^verbatim>\<open>false\<close>, and
  \<^verbatim>\<open>ENVIADO\<close> in every other case.
\<close>

theorem paso_webhook_clasifica:
  "paso_webhook (Inl err) = (JNull, ''ERROR_WEBHOOK'')
   \<and> fst (paso_webhook (Inr body)) = body
   \<and> (snd (paso_webhook (Inr body)) = ''ERROR_WEBHOOK''
        \<or> snd (paso_webhook (Inr body)) = ''ENVIADO'')
   \<and> ((snd (paso_webhook (Inr body)) = ''ERROR_WEBHOOK'') =
        ((\<exists>c. campo body ''code'' = Some c \<and> truthy c)
         \<and> campo body ''estado'' = Some (JBool False)))"
  by (auto simp: paso_webhook_def split: option.splits)

text \<open>
  C4 as stated fails: the body \<^verbatim>\<open>{"estado": false}\<close>, received on HTTP 200, has a falsy
  \<^verbatim>\<open>estado\<close> field and is classified \<^verbatim>\<open>ENVIADO\<close>, since it has no \<^verbatim>\<open>code\<close>.
\<close>

theorem paso_webhook_estado_falso_counterexample:
  "campo (JObj [(''estado'', JBool False)]) ''estado'' = Some (JBool False)
   \<and> paso_webhook (Inr (JObj [(''estado'', JBool False)]))
       = (JObj [(''estado'', JBool False)], ''ENVIADO'')"
  by (simp add: paso_webhook_def)

text \<open>
  C8. \<^verbatim>\<open>getResumenPagosDia\<close> on a scope for which the query selects no row returns
  the empty list in a successful response (status 200), not an error.
\<close>

theorem resumen_vacio_no_es_error:
  assumes "obtenerPagosDirectos db usuarioId (fechaResumen_de fecha fechaLocal) None = Inr []"
  shows "getResumenPagosDia fechaLocal db usuarioId fecha =
           \<lparr>success = True, data = Some [], error = None, statusCode = 200\<rparr>"
  using assms by (simp add: getResumenPagosDia_def agruparFilas_def)

theorem resumen_vacio_no_es_error_witness:
  "obtenerPagosDirectos db0 2 (fechaResumen_de None ''2024-05-01'') None = Inr []
   \<and> getResumenPagosDia ''2024-05-01'' db0 2 None =
           \<lparr>success = True, data = Some [], error = None, statusCode = 200\<rparr>"
proof -
  have h: "obtenerPagosDirectos db0 2 (fechaResumen_de None ''2024-05-01'') None = Inr []"
    by (simp add: obtenerPagosDirectos_def condicion_def db0_def fechaResumen_de_def)
  show ?thesis using h resumen_vacio_no_es_error [OF h] by simp
qed

text \<open>
  C7 (as amended). An override of the subject or of the body that is present and not blank
  is used with its leading and trailing white space removed (so verbatim when it has
  none); otherwise the subject is the prefix \<^verbatim>\<open>Confirmacion de pagos - \<close> (with the
  accented o) followed by the name of the provider, and the body is the sentence that
  states the number of payments, the total with two decimals and the date.
\<close>

theorem compose_override_o_derivado:
  "(asunto = Some a \<and> trim a \<noteq> [] \<longrightarrow> asuntoFinal asunto nombre = trim a)
   \<and> (asunto = None \<or> asunto = Some a \<and> trim a = [] \<longrightarrow>
        asuntoFinal asunto nombre = ''Confirmaci'' @ [CHR 0xF3] @ ''n de pagos - '' @ nombre)
   \<and> (mensaje = Some m \<and> trim m \<noteq> [] \<longrightarrow> mensajeFinal mensaje n tot f = trim m)
   \<and> (mensaje = None \<or> mensaje = Some m \<and> trim m = [] \<longrightarrow>
        mensajeFinal mensaje n tot f =
          ''Estimado proveedor, le enviamos el resumen de '' @ digitos n
          @ '' pago(s) por un total de '' @ toFixed2 tot
          @ '' correspondiente a la fecha '' @ f @ ''.'')
   \<and> (a \<noteq> [] \<and> \<not> es_espacio (hd a) \<and> \<not> es_espacio (last a) \<longrightarrow> trim a = a)"
  by (auto simp: asuntoFinal_def mensajeFinal_def trim_sin_bordes trim_Nil)

theorem compose_override_o_derivado_witness:
  "asuntoFinal (Some ''  Pago de mayo '') ''ACME'' = ''Pago de mayo''
   \<and> asuntoFinal (Some ''   '') ''ACME'' = ''Confirmaci'' @ [CHR 0xF3] @ ''n de pagos - ACME''
   \<and> mensajeFinal (Some ''Adjunto el detalle.'') 2 (51 / 2) ''2024-05-01''
       = ''Adjunto el detalle.''
   \<and> mensajeFinal None 2 (51 / 2) ''2024-05-01'' =
        ''Estimado proveedor, le enviamos el resumen de 2 pago(s) por un total de 25.50 correspondiente a la fecha 2024-05-01.''
   \<and> trim ''Pago de mayo'' = ''Pago de mayo''"
  using compose_override_o_derivado
          [of "Some ''  Pago de mayo ''" "''  Pago de mayo ''" "''ACME''"
              "Some ''Adjunto el detalle.''" "''Adjunto el detalle.''" 2 "51 / 2"
              "''2024-05-01''"]
        compose_override_o_derivado
          [of "Some ''   ''" "''   ''" "''ACME''" None "[]" 2 "51 / 2" "''2024-05-01''"]
        compose_override_o_derivado
          [of None "''Pago de mayo''" "''ACME''" None "[]" 2 "51 / 2" "''2024-05-01''"]
  by (simp add: trim_def es_espacio_def toFixed2_ejemplo digitos_2)

text \<open>
  C7 as stated fails: the override \<^verbatim>\<open>" Hola "\<close> is present and not blank, and the
  subject used is \<^verbatim>\<open>"Hola"\<close>, not the override verbatim.
\<close>

theorem asunto_recortado_counterexample:
  "trim '' Hola '' \<noteq> []
   \<and> asuntoFinal (Some '' Hola '') ''ACME'' = ''Hola''
   \<and> asuntoFinal (Some '' Hola '') ''ACME'' \<noteq> '' Hola ''"
  by (simp add: asuntoFinal_def trim_def es_espacio_def)

text \<open>
  C5 (as amended). The loop splits the records into two lists of identifiers: those whose
  code, once upper-cased, starts with \<^verbatim>\<open>BANCO-\<close> go to the bank list, all the others
  (no code, the empty code, any other code) to the card list, in the order of the records.
  Both lists together hold every identifier, and they are disjoint when the identifiers
  of the records are distinct. A code that starts with \<^verbatim>\<open>BANCO-\<close> as written is a
  bank code.
\<close>

theorem clasificarPagos_particion:
  "clasificarPagos ps =
     (map pago_id (filter (\<lambda>p. \<not> esBancario p) ps), map pago_id (filter esBancario ps))
   \<and> set (fst (clasificarPagos ps)) \<union> set (snd (clasificarPagos ps)) = set (map pago_id ps)
   \<and> (distinct (map pago_id ps) \<longrightarrow>
        set (fst (clasificarPagos ps)) \<inter> set (snd (clasificarPagos ps)) = {})
   \<and> (codigo p = Some (''BANCO-'' @ resto) \<longrightarrow> esBancario p)
   \<and> (codigo p = None \<or> codigo p = Some [] \<longrightarrow> \<not> esBancario p)
   \<and> esBancario p =
       startsWith (toUpperCase (case codigo p of None \<Rightarrow> [] | Some c \<Rightarrow> c)) ''BANCO-''"
proof -
  have d: "distinct (map pago_id ps) \<Longrightarrow>
       set (map pago_id (filter (\<lambda>p. \<not> esBancario p) ps))
         \<inter> set (map pago_id (filter esBancario ps)) = {}"
    by (induction ps) auto
  have v: "codigo p = None \<or> codigo p = Some [] \<Longrightarrow> \<not> esBancario p"
    by (auto simp: esBancario_def toUpperCase_def startsWith_def)
  show ?thesis
    using d v by (auto simp: clasificarPagos_filter esBancario_prefijo) (simp add: esBancario_def)+
qed

theorem clasificarPagos_particion_witness:
  "distinct (map pago_id pagos_ejemplo)
   \<and> clasificarPagos pagos_ejemplo = ([2, 3], [1])
   \<and> set (fst (clasificarPagos pagos_ejemplo)) \<inter> set (snd (clasificarPagos pagos_ejemplo)) = {}
   \<and> esBancario \<lparr>pago_id = 1, cliente = ''Ana'', monto = 10, codigo = Some ''BANCO-001''\<rparr>
   \<and> \<not> esBancario \<lparr>pago_id = 3, cliente = ''Eva'', monto = 30, codigo = Some []\<rparr>"
proof -
  have h: "distinct (map pago_id pagos_ejemplo)" by (simp add: pagos_ejemplo_def)
  show ?thesis
    using h
      clasificarPagos_particion
        [of pagos_ejemplo
            "\<lparr>pago_id = 1, cliente = ''Ana'', monto = 10, codigo = Some ''BANCO-001''\<rparr>"
            "''001''"]
      clasificarPagos_particion
        [of pagos_ejemplo
            "\<lparr>pago_id = 3, cliente = ''Eva'', monto = 30, codigo = Some []\<rparr>" "[]"]
    by (simp add: pagos_ejemplo_def esBancario_def toUpperCase_def toUpperCase_char_def
          startsWith_def)
qed

text \<open>
  C5 as stated fails: the code \<^verbatim>\<open>"banco-001"\<close> does not start with the prefix
  \<^verbatim>\<open>BANCO-\<close>, yet its record goes to the bank list.
\<close>

theorem clasificar_minusculas_counterexample:
  "\<not> startsWith ''banco-001'' ''BANCO-''
   \<and> clasificarPagos
        [\<lparr>pago_id = 5, cliente = ''Ana'', monto = 10, codigo = Some ''banco-001''\<rparr>]
       = ([], [5])"
  by (simp add: clasificarPagos_def paso_clasificar_def esBancario_def toUpperCase_def
        toUpperCase_char_def startsWith_def)

text \<open>
  C10. Two runs of the dispatch that differ only in the outcome of the gateway call make
  the same calls of the persistence function (the same nine arguments), leave the same
  store, post the same payload and return the same response apart from the field
  \<^verbatim>\<open>webhook\<close> of the report: the send status computed from the outcome reaches neither
  the store nor the caller.
\<close>

theorem resultado_del_gateway_no_influye:
  "registrados (enviarCorreoProveedor reg gw1 hoy db u p fecha a m)
     = registrados (enviarCorreoProveedor reg gw2 hoy db u p fecha a m)
   \<and> bd (enviarCorreoProveedor reg gw1 hoy db u p fecha a m)
     = bd (enviarCorreoProveedor reg gw2 hoy db u p fecha a m)
   \<and> enviados (enviarCorreoProveedor reg gw1 hoy db u p fecha a m)
     = enviados (enviarCorreoProveedor reg gw2 hoy db u p fecha a m)
   \<and> sin_webhook (respuesta (enviarCorreoProveedor reg gw1 hoy db u p fecha a m))
     = sin_webhook (respuesta (enviarCorreoProveedor reg gw2 hoy db u p fecha a m))"
  by (simp add: enviarCorreoProveedor_def sin_webhook_def Let_def
           split: sum.splits list.splits prod.splits option.splits)

text \<open>
  C3 (as amended). When the query has selected rows, the dispatch posts the payload once
  and calls the persistence function once, with arguments \<open>args\<close>. When that call fails,
  the dispatch returns an ordinary failure, \<open>success = False\<close> with no \<open>data\<close> (no
  recipient, identifiers or message):
  \<^item> the message of the exception with status 500 when the call throws;
  \<^item> the fixed text with status 500 when the reply is \<^verbatim>\<open>null\<close>;
  \<^item> the message of the reply, or the fixed text when that message is missing or empty,
    with the status of the reply, when that status is 400 or more.
  A dispatch whose first query throws returns, before anything is posted or recorded, the
  very response of the first case for the same message.
\<close>

theorem fallo_de_registro_respuesta_generica:
  assumes q: "obtenerPagosDirectos db u (fechaResumen_de fecha hoy) (Some p) = Inr (r # rs)"
    and ra: "registrados (enviarCorreoProveedor reg gw hoy db u p fecha a m) = [args]"
  shows "length (enviados (enviarCorreoProveedor reg gw hoy db u p fecha a m)) = 1
       \<and> (fst (reg args db) = Inl err \<longrightarrow>
            respuesta (enviarCorreoProveedor reg gw hoy db u p fecha a m)
              = \<lparr>success = False, data = None, error = Some err, statusCode = 500\<rparr>)
       \<and> (fst (reg args db) = Inr None \<longrightarrow>
            respuesta (enviarCorreoProveedor reg gw hoy db u p fecha a m)
              = \<lparr>success = False, data = None,
                 error = Some (''Error registrando el env'' @ [CHR 0xED] @ ''o de correo''),
                 statusCode = 500\<rparr>)
       \<and> (fst (reg args db) = Inr (Some rep) \<and> reg_status rep = Some s \<and> s \<ge> 400 \<longrightarrow>
            respuesta (enviarCorreoProveedor reg gw hoy db u p fecha a m)
              = \<lparr>success = False, data = None,
                 error = Some (case reg_message rep of
                                 None \<Rightarrow> ''Error registrando el env'' @ [CHR 0xED] @ ''o de correo''
                               | Some t \<Rightarrow>
                                   if t = []
                                   then ''Error registrando el env'' @ [CHR 0xED] @ ''o de correo''
                                   else t),
                 statusCode = s\<rparr>)
       \<and> (obtenerPagosDirectos db2 u2 (fechaResumen_de fecha2 hoy2) (Some p2) = Inl err \<longrightarrow>
            respuesta (enviarCorreoProveedor reg gw2 hoy2 db2 u2 p2 fecha2 a2 m2)
              = \<lparr>success = False, data = None, error = Some err, statusCode = 500\<rparr>
            \<and> enviados (enviarCorreoProveedor reg gw2 hoy2 db2 u2 p2 fecha2 a2 m2) = []
            \<and> registrados (enviarCorreoProveedor reg gw2 hoy2 db2 u2 p2 fecha2 a2 m2) = [])"
proof -
  let ?T = "enviarCorreoProveedor reg gw hoy db u p fecha a m"
  from ra have ae: "args = hd (registrados ?T)" by simp
  have 0: "length (enviados ?T) = 1"
    using q by (simp add: enviarCorreoProveedor_def Let_def case_prod_beta)
  have 1: "respuesta ?T = \<lparr>success = False, data = None, error = Some err, statusCode = 500\<rparr>"
    if h: "fst (reg (hd (registrados ?T)) db) = Inl err"
    using q h by (simp add: enviarCorreoProveedor_def Let_def case_prod_beta)
  have 2: "respuesta ?T = \<lparr>success = False, data = None,
                 error = Some (''Error registrando el env'' @ [CHR 0xED] @ ''o de correo''),
                 statusCode = 500\<rparr>"
    if h: "fst (reg (hd (registrados ?T)) db) = Inr None"
    using q h by (simp add: enviarCorreoProveedor_def Let_def case_prod_beta)
  have 3: "respuesta ?T = \<lparr>success = False, data = None,
                 error = Some (case reg_message rep of
                                 None \<Rightarrow> ''Error registrando el env'' @ [CHR 0xED] @ ''o de correo''
                               | Some t \<Rightarrow>
                                   if t = []
                                   then ''Error registrando el env'' @ [CHR 0xED] @ ''o de correo''
                                   else t),
                 statusCode = s\<rparr>"
    if h: "fst (reg (hd (registrados ?T)) db) = Inr (Some rep)"
      and hs: "reg_status rep = Some s" and s: "s \<ge> 400"
    using q h hs s by (simp add: enviarCorreoProveedor_def Let_def case_prod_beta)
  have 4: "respuesta (enviarCorreoProveedor reg gw2 hoy2 db2 u2 p2 fecha2 a2 m2)
              = \<lparr>success = False, data = None, error = Some err, statusCode = 500\<rparr>
            \<and> enviados (enviarCorreoProveedor reg gw2 hoy2 db2 u2 p2 fecha2 a2 m2) = []
            \<and> registrados (enviarCorreoProveedor reg gw2 hoy2 db2 u2 p2 fecha2 a2 m2) = []"
    if "obtenerPagosDirectos db2 u2 (fechaResumen_de fecha2 hoy2) (Some p2) = Inl err"
    using that by (simp add: enviarCorreoProveedor_def)
  show ?thesis unfolding ae using 0 1 2 3 4 by blast
qed

theorem fallo_de_registro_respuesta_generica_witness:
  "obtenerPagosDirectos db0 3 (fechaResumen_de None ''2024-05-01'') (Some 7) \<noteq> Inr []
   \<and> registrados (enviarCorreoProveedor reg_falla gw_ok ''2024-05-01'' db0 3 7 None None None)
       = [args0]
   \<and> fst (reg_falla args0 db0) = Inl ''connection terminated unexpectedly''
   \<and> respuesta (enviarCorreoProveedor reg_falla gw_ok ''2024-05-01'' db0 3 7 None None None)
       = \<lparr>success = False, data = None, error = Some ''connection terminated unexpectedly'',
          statusCode = 500\<rparr>
   \<and> length (enviados
        (enviarCorreoProveedor reg_falla gw_ok ''2024-05-01'' db0 3 7 None None None)) = 1
   \<and> respuesta (enviarCorreoProveedor reg_falla gw_timeout ''2024-05-01''
        (db0\<lparr>caida := Some ''connection terminated unexpectedly''\<rparr>) 3 7 None None None)
       = \<lparr>success = False, data = None, error = Some ''connection terminated unexpectedly'',
          statusCode = 500\<rparr>"
proof -
  have h: "obtenerPagosDirectos db0 3 (fechaResumen_de None ''2024-05-01'') (Some 7)
           = Inr (\<lparr>row_id_pago = 101, row_cliente = ''Ana'', row_monto = 10,
                   row_codigo = Some ''TARJ-001'', row_id_proveedor = 7,
                   row_nombre_proveedor = ''ACME'', row_correo = ''pagos@acme.test''\<rparr> #
                  [\<lparr>row_id_pago = 102, row_cliente = ''Luis'', row_monto = 31 / 2,
                    row_codigo = Some ''BANCO-001'', row_id_proveedor = 7,
                    row_nombre_proveedor = ''ACME'', row_correo = ''pagos@acme.test''\<rparr>])"
    by (simp add: fechaResumen_de_def filas_db0)
  have r: "registrados (enviarCorreoProveedor reg_falla gw_ok ''2024-05-01'' db0 3 7
             None None None) = [args0]"
    by (simp add: llamada_db0)
  have c: "obtenerPagosDirectos (db0\<lparr>caida := Some ''connection terminated unexpectedly''\<rparr>) 3
             (fechaResumen_de None ''2024-05-01'') (Some 7)
           = Inl ''connection terminated unexpectedly''"
    by (simp add: fechaResumen_de_def filas_db0_caida)
  show ?thesis
    using h r c
      fallo_de_registro_respuesta_generica
        [OF h r, where err = "''connection terminated unexpectedly''"
           and ?db2.0 = "db0\<lparr>caida := Some ''connection terminated unexpectedly''\<rparr>"
           and ?u2.0 = 3 and ?fecha2.0 = None and ?hoy2.0 = "''2024-05-01''" and ?p2.0 = 7 and ?gw2.0 = gw_timeout
           and ?a2.0 = None and ?m2.0 = None]
    by (simp add: reg_falla_def)
qed

text \<open>
  C3 as stated fails: with a gateway that succeeds and a persistence function that throws,
  the payload has been posted and the response is \<open>success = False\<close> with the message of
  the exception, status 500 and no data; it is the very response of a dispatch whose first
  query fails with that message, before anything is posted.
\<close>

theorem fallo_tras_envio_counterexample:
  "respuesta (enviarCorreoProveedor reg_falla gw_ok ''2024-05-01'' db0 3 7 None None None)
     = \<lparr>success = False, data = None, error = Some ''connection terminated unexpectedly'',
        statusCode = 500\<rparr>
   \<and> length (enviados
        (enviarCorreoProveedor reg_falla gw_ok ''2024-05-01'' db0 3 7 None None None)) = 1
   \<and> respuesta (enviarCorreoProveedor reg_falla gw_ok ''2024-05-01''
        (db0\<lparr>caida := Some ''connection terminated unexpectedly''\<rparr>) 3 7 None None None)
     = \<lparr>success = False, data = None, error = Some ''connection terminated unexpectedly'',
        statusCode = 500\<rparr>
   \<and> enviados (enviarCorreoProveedor reg_falla gw_ok ''2024-05-01''
        (db0\<lparr>caida := Some ''connection terminated unexpectedly''\<rparr>) 3 7 None None None) = []"
  by (simp add: enviarCorreoProveedor_def fechaResumen_de_def filas_db0 filas_db0_caida
        reg_falla_def Let_def split: prod.splits)

text \<open>
  C1, evaluated where the code departs from it: provider 7 has two eligible records and
  the gateway call times out. The gateway step computes \<^verbatim>\<open>ERROR_WEBHOOK\<close> and the
  persistence function is still called, once; but the call carries the nine arguments
  \<open>args0\<close> and no status, so for every persistence function the store after the failed
  call is the store after a call that succeeded. With the persistence function of the
  specification the one Delivery row has the status \<open>estado_bd\<close> that the store writes
  on its own, and the dispatch reports success.
\<close>

theorem estado_envio_no_llega_al_registro:
  "snd (paso_webhook (gw_timeout payload)) = ''ERROR_WEBHOOK''
   \<and> registrados (enviarCorreoProveedor reg gw_timeout ''2024-05-01'' db0 3 7 None None None)
      = [args0]
   \<and> bd (enviarCorreoProveedor reg gw_timeout ''2024-05-01'' db0 3 7 None None None)
      = snd (reg args0 db0)
   \<and> bd (enviarCorreoProveedor reg gw_ok ''2024-05-01'' db0 3 7 None None None)
      = snd (reg args0 db0)
   \<and> map e_estado (t_envios_correo (bd (enviarCorreoProveedor
        (registrar_envio_correo_con_detalles estado_bd) gw_timeout ''2024-05-01'' db0 3 7
        None None None)))
      = [estado_bd]
   \<and> success (respuesta (enviarCorreoProveedor
        (registrar_envio_correo_con_detalles estado_bd) gw_timeout ''2024-05-01'' db0 3 7
        None None None))"
proof -
  have 1: "snd (paso_webhook (gw_timeout payload)) = ''ERROR_WEBHOOK''"
    by (simp add: paso_webhook_def gw_timeout_def)
  have 2: "map e_estado (t_envios_correo
             (snd (registrar_envio_correo_con_detalles estado_bd args0 db0))) = [estado_bd]"
    by (simp add: registrar_envio_correo_con_detalles_def db0_campos Let_def)
  have 3: "success (respuesta (enviarCorreoProveedor
        (registrar_envio_correo_con_detalles estado_bd) gw_timeout ''2024-05-01'' db0 3 7
        None None None))"
    by (simp add: enviarCorreoProveedor_def fechaResumen_de_def filas_db0
          registrar_envio_correo_con_detalles_def db0_campos Let_def case_prod_beta)
  show ?thesis using 1 2 3 by (simp add: llamada_db0)
qed

text \<open>
  C2. A dispatch whose query selects no row fails with the response
  \<open>sin_pagos_pendientes\<close> (status 404), calls neither the webhook nor the persistence
  function and leaves the store as it was. This is what a second dispatch for the same
  operator, provider and date meets after a first one that succeeded and claimed its
  records, that is, left the tables \<open>pagos\<close> and \<open>proveedores\<close> as they were and a link
  in \<open>detalle_envio_correo\<close> for every identifier it passed to the persistence function.
\<close>

theorem enviar_sin_pagos_elegibles:
  "(obtenerPagosDirectos db u (fechaResumen_de fecha hoy) (Some p) = Inr [] \<longrightarrow>
      enviarCorreoProveedor reg gw hoy db u p fecha a m
        = \<lparr>respuesta = sin_pagos_pendientes, bd = db, enviados = [], registrados = []\<rparr>)
   \<and> (success (respuesta (enviarCorreoProveedor reg gw hoy db u p fecha a m))
       \<and> caida (bd (enviarCorreoProveedor reg gw hoy db u p fecha a m)) = caida db
       \<and> t_pagos (bd (enviarCorreoProveedor reg gw hoy db u p fecha a m)) = t_pagos db
       \<and> t_proveedores (bd (enviarCorreoProveedor reg gw hoy db u p fecha a m)) = t_proveedores db
       \<and> set (map dec_pago_id (t_detalle_envio_correo db))
            \<union> set (concat (map (\<lambda>args. ids_pagos_tarjeta args @ ids_pagos_bancario args)
                  (registrados (enviarCorreoProveedor reg gw hoy db u p fecha a m))))
          \<subseteq> set (map dec_pago_id (t_detalle_envio_correo
                  (bd (enviarCorreoProveedor reg gw hoy db u p fecha a m))))
       \<longrightarrow>
      enviarCorreoProveedor reg' gw' hoy
          (bd (enviarCorreoProveedor reg gw hoy db u p fecha a m)) u p fecha a' m'
        = \<lparr>respuesta = sin_pagos_pendientes,
           bd = bd (enviarCorreoProveedor reg gw hoy db u p fecha a m),
           enviados = [], registrados = []\<rparr>)"
proof -
  let ?f = "fechaResumen_de fecha hoy"
  let ?T = "enviarCorreoProveedor reg gw hoy db u p fecha a m"
  have B: "obtenerPagosDirectos (bd ?T) u ?f (Some p) = Inr []"
    if s: "success (respuesta ?T)"
      and c: "caida (bd ?T) = caida db"
      and pg: "t_pagos (bd ?T) = t_pagos db"
      and pr: "t_proveedores (bd ?T) = t_proveedores db"
      and en: "set (map dec_pago_id (t_detalle_envio_correo db))
            \<union> set (concat (map (\<lambda>args. ids_pagos_tarjeta args @ ids_pagos_bancario args)
                  (registrados ?T)))
          \<subseteq> set (map dec_pago_id (t_detalle_envio_correo (bd ?T)))"
  proof (cases "obtenerPagosDirectos db u ?f (Some p)")
    case (Inl e)
    with s show ?thesis by (simp add: enviarCorreoProveedor_def)
  next
    case (Inr rows)
    show ?thesis
    proof (cases rows)
      case Nil
      with Inr s show ?thesis by (simp add: enviarCorreoProveedor_def sin_pagos_pendientes_def)
    next
      case (Cons r rs)
      with Inr have q: "obtenerPagosDirectos db u ?f (Some p) = Inr (r # rs)" by simp
      from registrados_ids [OF q, of reg gw a m] obtain args
        where ra: "registrados ?T = [args]"
          and ri: "row_id_pago ` set (r # rs)
                     \<subseteq> set (ids_pagos_tarjeta args @ ids_pagos_bancario args)"
        by blast
      from en ra have v: "set (map dec_pago_id (t_detalle_envio_correo db))
                   \<subseteq> set (map dec_pago_id (t_detalle_envio_correo (bd ?T)))"
        and n: "set (ids_pagos_tarjeta args @ ids_pagos_bancario args)
                   \<subseteq> set (map dec_pago_id (t_detalle_envio_correo (bd ?T)))"
        by auto
      from ri n have i: "row_id_pago ` set (r # rs)
                   \<subseteq> set (map dec_pago_id (t_detalle_envio_correo (bd ?T)))"
        by blast
      show ?thesis by (rule consulta_tras_enlaces [OF q c pg pr v i])
    qed
  qed
  show ?thesis using B by (simp add: enviar_vacio)
qed

theorem enviar_sin_pagos_elegibles_witness:
  "obtenerPagosDirectos db0 2 (fechaResumen_de None ''2024-05-01'') (Some 7) = Inr []
   \<and> enviarCorreoProveedor reg_falla gw_ok ''2024-05-01'' db0 2 7 None None None
        = \<lparr>respuesta = sin_pagos_pendientes, bd = db0, enviados = [], registrados = []\<rparr>
   \<and> success (respuesta (enviarCorreoProveedor
          (registrar_envio_correo_con_detalles ''ENVIADO'')
          gw_ok ''2024-05-01'' db0 3 7 None None None))
   \<and> map dec_pago_id (t_detalle_envio_correo (bd (enviarCorreoProveedor
          (registrar_envio_correo_con_detalles ''ENVIADO'')
          gw_ok ''2024-05-01'' db0 3 7 None None None))) = [101, 102]
   \<and> respuesta (enviarCorreoProveedor reg_falla gw_timeout ''2024-05-01''
          (bd (enviarCorreoProveedor (registrar_envio_correo_con_detalles ''ENVIADO'')
                  gw_ok ''2024-05-01'' db0 3 7 None None None))
          3 7 None None None)
        = sin_pagos_pendientes
   \<and> enviados (enviarCorreoProveedor reg_falla gw_timeout ''2024-05-01''
          (bd (enviarCorreoProveedor (registrar_envio_correo_con_detalles ''ENVIADO'')
                  gw_ok ''2024-05-01'' db0 3 7 None None None))
          3 7 None None None) = []"
proof -
  let ?T = "enviarCorreoProveedor (registrar_envio_correo_con_detalles ''ENVIADO'')
              gw_ok ''2024-05-01'' db0 3 7 None None None"
  note c = clasificar_db0
  have s: "success (respuesta ?T)"
    by (simp add: enviarCorreoProveedor_def fechaResumen_de_def filas_db0
          registrar_envio_correo_con_detalles_def db0_campos Let_def case_prod_beta)
  have b: "caida (bd ?T) = caida db0 \<and> t_pagos (bd ?T) = t_pagos db0
           \<and> t_proveedores (bd ?T) = t_proveedores db0"
    by (simp add: enviarCorreoProveedor_def fechaResumen_de_def filas_db0
          registrar_envio_correo_con_detalles_def db0_campos Let_def case_prod_beta)
  have d: "map dec_pago_id (t_detalle_envio_correo (bd ?T)) = [101, 102]"
    by (simp add: enviarCorreoProveedor_def fechaResumen_de_def filas_db0
          registrar_envio_correo_con_detalles_def db0_campos c Let_def case_prod_beta)
  have r: "concat (map (\<lambda>args. ids_pagos_tarjeta args @ ids_pagos_bancario args)
             (registrados ?T)) = [101, 102]"
    by (simp add: enviarCorreoProveedor_def fechaResumen_de_def filas_db0
          registrar_envio_correo_con_detalles_def db0_campos c Let_def case_prod_beta)
  have q: "obtenerPagosDirectos db0 2 (fechaResumen_de None ''2024-05-01'') (Some 7) = Inr []"
    by (simp add: obtenerPagosDirectos_def condicion_def db0_def fechaResumen_de_def)
  show ?thesis
    using s b d r q
      enviar_sin_pagos_elegibles
        [where db = db0 and u = 3 and p = 7 and fecha = None and hoy = "''2024-05-01''"
           and reg = "registrar_envio_correo_con_detalles ''ENVIADO''" and gw = gw_ok
           and a = None and m = None and reg' = reg_falla and gw' = gw_timeout
           and a' = None and m' = None]
      enviar_sin_pagos_elegibles
        [where db = db0 and u = 2 and p = 7 and fecha = None and hoy = "''2024-05-01''"
           and reg = reg_falla and gw = gw_ok and a = None and m = None
           and reg' = reg_falla and gw' = gw_timeout and a' = None and m' = None]
    by (simp add: db0_campos)
qed

text \<open>
  C9. The groups that \<^verbatim>\<open>getResumenPagosDia\<close> returns are in ascending order of the
  provider name, in the byte order of the names, and no name occurs twice: the rows arrive
  sorted by \<^verbatim>\<open>pr.nombre\<close> and the \<^verbatim>\<open>Map\<close> keeps the order of first insertion.
\<close>

theorem grupos_ordenados:
  assumes "data (getResumenPagosDia hoy db u fecha) = Some gs"
  shows "sorted (map proveedorNombre gs) \<and> distinct (map proveedorNombre gs)"
proof (cases "obtenerPagosDirectos db u (fechaResumen_de fecha hoy) None")
  case (Inl e)
  with assms show ?thesis by (simp add: getResumenPagosDia_def)
next
  case (Inr rows)
  with assms have gs: "gs = agruparFilas rows" by (simp add: getResumenPagosDia_def)
  have "sorted (map fst (foldl paso_agrupar [] rows))"
    using filas_ordenadas [OF Inr] by (simp add: sorted_agrupar)
  moreover have "distinct (map fst (foldl paso_agrupar [] rows))"
    by (simp add: distinct_agrupar)
  moreover have "map proveedorNombre gs = map fst (foldl paso_agrupar [] rows)"
    unfolding gs agruparFilas_def Let_def by (rule nombres_grupos)
  ultimately show ?thesis by simp
qed

theorem grupos_ordenados_witness:
  "data (getResumenPagosDia ''2024-05-01'' db_orden 3 None) \<noteq> None
   \<and> map proveedorNombre (the (data (getResumenPagosDia ''2024-05-01'' db_orden 3 None)))
       = [''Zeta'', ''alfa'']
   \<and> sorted [''Zeta'', ''alfa'']"
  using grupos_ordenados [OF grupos_db_orden] by (simp add: grupos_db_orden)

text \<open>
  C6 (as amended). In every group of the daily summary, and in every group of the
  sent-summary of GmailGenService.ts, \<open>totalMonto\<close> is the sum of the amounts of the member
  payments and \<open>totalPagos\<close> their number. In the sent-summary of the other revision
  (unnamed/part_001) a total that the reply of the store carries as a number is returned
  as it is, and only a total that the reply lacks is computed from the member payments.
\<close>

theorem totales_recalculados:
  "(data (getResumenPagosDia hoy db u fecha) = Some gs \<longrightarrow>
      (\<forall>g \<in> set gs. totalMonto g = sum_list (map monto (pagos g))
                    \<and> totalPagos g = int (length (pagos g))))
   \<and> (data (getResumenEnviosFecha consulta) = Some gs' \<longrightarrow>
      (\<forall>g \<in> set gs'. totalMonto g = sum_list (map monto (pagos g))
                     \<and> totalPagos g = int (length (pagos g))))
   \<and> (grupo_enviado_part_001 (i, nombre, Some det) = [g1] \<longrightarrow>
        totalPagos g1 = (case dj_resumen_cantidad_pagos det of
                           Some n \<Rightarrow> n | None \<Rightarrow> int (length (pagos g1)))
        \<and> totalMonto g1 = (case dj_resumen_monto_total det of
                             Some t \<Rightarrow> t | None \<Rightarrow> sum_list (map monto (pagos g1))))"
proof -
  have 1: "\<forall>g \<in> set gs. totalMonto g = sum_list (map monto (pagos g))
                    \<and> totalPagos g = int (length (pagos g))"
    if "data (getResumenPagosDia hoy db u fecha) = Some gs"
    using that totales_pendientes
    by (auto simp: getResumenPagosDia_def Let_def split: sum.splits)
  have 2: "\<forall>g \<in> set gs'. totalMonto g = sum_list (map monto (pagos g))
                     \<and> totalPagos g = int (length (pagos g))"
    if "data (getResumenEnviosFecha consulta) = Some gs'"
    using that totales_enviados
    by (auto simp: getResumenEnviosFecha_def Let_def split: sum.splits option.splits if_splits)
  have 3: "totalPagos g1 = (case dj_resumen_cantidad_pagos det of
                           Some n \<Rightarrow> n | None \<Rightarrow> int (length (pagos g1)))
        \<and> totalMonto g1 = (case dj_resumen_monto_total det of
                             Some t \<Rightarrow> t | None \<Rightarrow> sum_list (map monto (pagos g1)))"
    if "grupo_enviado_part_001 (i, nombre, Some det) = [g1]"
    using that
    by (auto simp: grupo_enviado_part_001_def sumaMontos_sum_list comp_def Let_def
          split: option.splits)
  show ?thesis using 1 2 3 by blast
qed

theorem totales_recalculados_witness:
  "list_all (\<lambda>g. totalMonto g = sum_list (map monto (pagos g))
                  \<and> totalPagos g = int (length (pagos g)))
     (the (data (getResumenPagosDia ''2024-05-01'' db_orden 3 None)))
   \<and> map totalMonto (the (data (getResumenPagosDia ''2024-05-01'' db_orden 3 None)))
       = [7, 21 / 4]
   \<and> list_all (\<lambda>g. totalMonto g = sum_list (map monto (pagos g))
                    \<and> totalPagos g = int (length (pagos g)))
       (the (data (getResumenEnviosFecha (Inr (Some resumen_ejemplo)))))
   \<and> map totalPagos (the (data (getResumenEnviosFecha (Inr (Some resumen_ejemplo))))) = [1]"
  using totales_recalculados
          [where hoy = "''2024-05-01''" and db = db_orden and u = 3 and fecha = None
             and consulta = "Inr (Some resumen_ejemplo)"]
        grupos_db_orden enviados_ejemplo
  by simp

text \<open>
  C6 as stated fails in the sent-summary of unnamed/part_001: for a reply whose
  \<^verbatim>\<open>resumen\<close> says 5 payments and a total of 99, the group has \<open>totalPagos = 5\<close> and
  \<open>totalMonto = 99\<close> with one member payment of 10.
\<close>

theorem totales_part_001_counterexample:
  "data (getResumenEnviosFecha_part_001 (Inr (Some resumen_ejemplo))) =
     Some [\<lparr>grupo_id = 7, proveedorNombre = ''ACME'', correoContacto = ''pagos@acme.test'',
            color = teal, estado = enviado,
            pagos = [\<lparr>pago_id = 101, cliente = ''Ana'', monto = 10, codigo = Some ''TARJ-001''\<rparr>],
            totalPagos = 5, totalMonto = 99\<rparr>]"
  by (simp add: getResumenEnviosFecha_part_001_def resumen_ejemplo_def nullish_def
        grupo_enviado_part_001_def pago_de_json_def sumaMontos_def enumerate_eq_zip Let_def)

end
